theory Spec2Isabelle
  imports Complex_Main
begin

section \<open>The particle mass table generator (calc\_particle\_mass.py)\<close>

subsection \<open>Data model\<close>

text \<open>
  A catalog record as the script reads it: the signed identifier \<open>p.pdgid\<close>, the mass
  \<open>p.mass\<close> in MeV (\<open>None\<close> when the catalog has none) and the display name
  \<open>p.name\<close> (\<open>None\<close> or empty when there is none). The type \<open>'f\<close> stands for
  Python's float.
\<close>

record 'f particle =
  pdgid :: int
  mass :: "'f option"
  name :: "string option"

text \<open>
  The external catalog: \<open>Particle.findall()\<close> enumerates the records in catalog
  order, \<open>Particle.from_pdgid(i)\<close> returns the record of an identifier or raises
  (\<open>None\<close> here). The attribute \<open>p.pdgid\<close> is an object of the library's identifier
  class, a subclass of \<open>int\<close>: \<open>abs\<close> and the format \<open>d\<close> treat it as the integer,
  while \<open>str\<close> and a format without specification give the library's own rendering,
  \<open>pdgid_str\<close>.
\<close>

record 'f catalog =
  findall :: "'f particle list"
  from_pdgid :: "int \<Rightarrow> 'f particle option"
  pdgid_str :: "int \<Rightarrow> string"

text \<open>
  The float operations the script uses, taken as parameters: a decimal literal
  (\<open>fl_lit F m e\<close> is the float written \<open>m\<close>e\<open>e\<close>), \<open>math.isnan\<close>, the product
  \<open>*\<close>, the comparison \<open>!=\<close> and the two renderings \<open>format(x, ".10e")\<close> and
  \<open>format(x, ".6g")\<close>.
\<close>

record 'f float_ops =
  fl_lit :: "int \<Rightarrow> int \<Rightarrow> 'f"
  fl_isnan :: "'f \<Rightarrow> bool"
  fl_mul :: "'f \<Rightarrow> 'f \<Rightarrow> 'f"
  fl_ne :: "'f \<Rightarrow> 'f \<Rightarrow> bool"
  fmt_e10 :: "'f \<Rightarrow> string"
  fmt_g6 :: "'f \<Rightarrow> string"

text \<open>The literal \<open>0.0\<close>, and \<open>MEV_TO_KG = 1.78266192e-30\<close>.\<close>

definition fl_zero :: "'f float_ops \<Rightarrow> 'f" where
  "fl_zero F = fl_lit F 0 (- 1)"

definition MEV_TO_KG :: "'f float_ops \<Rightarrow> 'f" where
  "MEV_TO_KG F = fl_lit F 178266192 (- 38)"

datatype exn =
  ModuleNotFoundError string | SystemExit string | ValueError | ParticleNotFound | KeyError

type_synonym 'f row = "int \<times> 'f \<times> string \<times> 'f"

definition row_pdgid :: "'f row \<Rightarrow> int" where
  "row_pdgid r = fst r"

definition row_m_kg :: "'f row \<Rightarrow> 'f" where
  "row_m_kg r = fst (snd r)"

definition row_name :: "'f row \<Rightarrow> string" where
  "row_name r = fst (snd (snd r))"

definition row_m_mev :: "'f row \<Rightarrow> 'f" where
  "row_m_mev r = snd (snd (snd r))"

subsection \<open>Classification\<close>

definition quark_ids :: "int set" where
  "quark_ids = {1, 2, 3, 4, 5, 6}"

definition forced_zero_ids :: "int set" where
  "forced_zero_ids = {12, 14, 16, 22}"

definition is_quark :: "'f particle \<Rightarrow> bool" where
  "is_quark p = (\<bar>pdgid p\<bar> \<in> quark_ids)"

text \<open>The source returns \<open>True\<close> or falls off the end (\<open>None\<close>, which is falsy).\<close>

definition is_nucleus_or_ion :: "'f particle \<Rightarrow> bool" where
  "is_nucleus_or_ion p = (if \<bar>pdgid p\<bar> \<ge> 1000000000 then True else False)"

subsection \<open>Mass resolution\<close>

definition forced_mass_mev :: "'f float_ops \<Rightarrow> 'f catalog \<Rightarrow> int \<Rightarrow> exn + 'f" where
  "forced_mass_mev F c i =
     (if \<bar>i\<bar> \<in> forced_zero_ids then Inr (fl_zero F)
      else (case from_pdgid c i of
              None \<Rightarrow> Inl ParticleNotFound
            | Some p \<Rightarrow>
                (case mass p of
                   None \<Rightarrow> Inl ValueError
                 | Some m \<Rightarrow> if fl_isnan F m then Inl ValueError else Inr m)))"

subsection \<open>Grouping by absolute identifier\<close>

text \<open>
  The dictionary \<open>absid_to_pdgid\<close> is an association list in insertion order; the
  state of the loop is the list of printed identifiers and the dictionary.
\<close>

type_synonym groups = "(int \<times> int) list"

definition group_step :: "'f catalog \<Rightarrow> int list \<times> groups \<Rightarrow> 'f particle \<Rightarrow> int list \<times> groups" where
  "group_step c s p =
     (if is_quark p then s
      else
        (let out = fst s @ [pdgid p]; d = snd s in
         if is_nucleus_or_ion p then (out, d)
         else
           (let aid = \<bar>pdgid p\<bar> in
            if aid \<in> fst ` set d then (out, d)
            else (case from_pdgid c aid of
                    Some q \<Rightarrow> (out, d @ [(aid, aid)])
                  | None \<Rightarrow> (out, d @ [(aid, pdgid p)])))))"

definition group_loop :: "'f catalog \<Rightarrow> 'f particle list \<Rightarrow> int list \<times> groups" where
  "group_loop c ps = foldl (group_step c) ([], []) ps"

definition absid_to_pdgid :: "'f catalog \<Rightarrow> groups" where
  "absid_to_pdgid c = snd (group_loop c (findall c))"

subsection \<open>Rows\<close>

text \<open>The decimal rendering of an integer, as \<open>{pdgid:>6d}\<close> and \<open>str\<close> of an \<open>int\<close> give it.\<close>

definition digit_char :: "nat \<Rightarrow> char" where
  "digit_char n = ''0123456789'' ! (n mod 10)"

fun nat_digits :: "nat \<Rightarrow> string" where
  "nat_digits n = (if n < 10 then [digit_char n] else nat_digits (n div 10) @ [digit_char n])"

declare nat_digits.simps [simp del]

definition str_int :: "int \<Rightarrow> string" where
  "str_int i = (if i < 0 then CHR ''-'' # nat_digits (nat (- i)) else nat_digits (nat i))"

text \<open>Reading a decimal rendering back, to state that \<open>str_int\<close> loses nothing.\<close>

definition digit_val :: "char \<Rightarrow> nat" where
  "digit_val ch = of_char ch - 48"

definition digits_val :: "string \<Rightarrow> nat" where
  "digits_val s = foldl (\<lambda>v ch. 10 * v + digit_val ch) 0 s"

definition int_of_str :: "string \<Rightarrow> int" where
  "int_of_str s =
     (case s of
        [] \<Rightarrow> 0
      | ch # ds \<Rightarrow> if ch = CHR ''-'' then - int (digits_val ds) else int (digits_val s))"

text \<open>
  The grouping loop stores the plain integer \<open>aid\<close> when the lookup of \<open>aid\<close>
  succeeds, and the record's own \<open>p.pdgid\<close>, an identifier object, when it fails. The
  catalog does not change during the run, so a stored representative \<open>i\<close> is the
  object exactly when the lookup of \<open>abs(i)\<close> fails.
\<close>

definition rep_is_object :: "'f catalog \<Rightarrow> int \<Rightarrow> bool" where
  "rep_is_object c i = (from_pdgid c \<bar>i\<bar> = None)"

text \<open>\<open>f"{pdgid}"\<close>: the decimal digits of a plain integer, \<open>str\<close> of an object.\<close>

definition fstr_pdgid :: "'f catalog \<Rightarrow> int \<Rightarrow> string" where
  "fstr_pdgid c i = (if rep_is_object c i then pdgid_str c i else str_int i)"

text \<open>\<open>Particle.from_pdgid(pdgid).name or f"PDG{pdgid}"\<close>, for the record \<open>p\<close> looked up.\<close>

definition display_name :: "'f catalog \<Rightarrow> 'f particle \<Rightarrow> int \<Rightarrow> string" where
  "display_name c p i =
     (case name p of
        None \<Rightarrow> ''PDG'' @ fstr_pdgid c i
      | Some s \<Rightarrow> if s = [] then ''PDG'' @ fstr_pdgid c i else s)"

text \<open>
  The body of the rows loop for one representative identifier: \<open>Inr None\<close> is the
  \<open>continue\<close> after a caught \<open>ValueError\<close>, \<open>Inl\<close> an exception that nothing
  catches.
\<close>

definition row_for :: "'f float_ops \<Rightarrow> 'f catalog \<Rightarrow> int \<Rightarrow> exn + 'f row option" where
  "row_for F c i =
     (case forced_mass_mev F c i of
        Inl e \<Rightarrow> (if e = ValueError then Inr None else Inl e)
      | Inr m_mev \<Rightarrow>
          (case from_pdgid c i of
             None \<Rightarrow> Inl ParticleNotFound
           | Some p \<Rightarrow>
               Inr (Some (i, fl_mul F m_mev (MEV_TO_KG F), display_name c p i, m_mev))))"

fun rows_loop :: "'f float_ops \<Rightarrow> 'f catalog \<Rightarrow> groups \<Rightarrow> int list \<Rightarrow> 'f row list \<Rightarrow> exn + 'f row list" where
  "rows_loop F c d [] rows = Inr rows"
| "rows_loop F c d (aid # aids) rows =
     (case map_of d aid of
        None \<Rightarrow> Inl KeyError
      | Some i \<Rightarrow>
          (case row_for F c i of
             Inl e \<Rightarrow> Inl e
           | Inr None \<Rightarrow> rows_loop F c d aids rows
           | Inr (Some r) \<Rightarrow> rows_loop F c d aids (rows @ [r])))"

definition build_rows :: "'f float_ops \<Rightarrow> 'f catalog \<Rightarrow> exn + 'f row list" where
  "build_rows F c = (let d = absid_to_pdgid c in rows_loop F c d (sort (map fst d)) [])"

subsection \<open>Output\<close>

text \<open>
  \<open>{s:>6}\<close> and \<open>{s:<18}\<close>: pad with spaces up to the width, never cut.
\<close>

definition rjust :: "nat \<Rightarrow> string \<Rightarrow> string" where
  "rjust w s = replicate (w - length s) (CHR '' '') @ s"

definition ljust :: "nat \<Rightarrow> string \<Rightarrow> string" where
  "ljust w s = s @ replicate (w - length s) (CHR '' '')"

definition m_kg_str :: "'f float_ops \<Rightarrow> 'f \<Rightarrow> string" where
  "m_kg_str F m_kg = (if fl_ne F m_kg (fl_zero F) then fmt_e10 F m_kg else ''0.0'')"

definition format_row :: "'f float_ops \<Rightarrow> 'f row \<Rightarrow> string" where
  "format_row F r =
     (case r of (i, m_kg, nm, m_mev) \<Rightarrow>
        rjust 6 (str_int i) @ '' '' @ ljust 18 (m_kg_str F m_kg) @ ''    # '' @ nm
          @ '' ('' @ fmt_g6 F m_mev @ '' MeV/c^2)'' @ [CHR 0x0A])"

definition header_line :: string where
  "header_line =
     ''# PDG masses [kg]; particle/antiparticle share the same value via |PDG|'' @ [CHR 0x0A]"

definition install_message :: string where
  "install_message =
     ''This script requires '' @ [CHR 0x27] @ ''particle'' @ [CHR 0x27]
       @ '' (scikit-hep). Install with:'' @ [CHR 0x0A] @ ''    pip install particle''"

text \<open>
  What the run can touch: whether the folder \<open>data\<close> exists, the content of
  \<open>data/particle_masses.txt\<close> (\<open>None\<close> when there is no such file) and the
  identifiers printed. The environment says whether \<open>numpy\<close> and \<open>gitHelp\<close> can be
  imported, gives the imported catalog (\<open>None\<close> when the import of \<open>particle\<close> fails)
  and the result of \<open>gh.get_git_revision_hash()\<close> (\<open>None\<close> when it raises).
\<close>

record world =
  folder_exists :: bool
  out_file :: "string option"
  stdout :: "int list"

record 'f env =
  numpy_lib :: bool
  gitHelp_lib :: bool
  particle_lib :: "'f catalog option"
  git_hash :: "string option"

definition git_line :: "string option \<Rightarrow> string" where
  "git_line g =
     (case g of
        None \<Rightarrow> []
      | Some h \<Rightarrow> ''# Produced with crpropa-data version: '' @ h @ [CHR 0x0A])"

text \<open>
  The script from top to bottom. The imports of \<open>numpy\<close> and \<open>gitHelp\<close> come first
  and are not guarded; only the import of \<open>particle\<close> is turned into \<open>SystemExit\<close>.
\<close>

definition main :: "'f float_ops \<Rightarrow> 'f env \<Rightarrow> world \<Rightarrow> (exn + unit) \<times> world" where
  "main F e w =
     (if \<not> numpy_lib e then (Inl (ModuleNotFoundError ''numpy''), w)
      else if \<not> gitHelp_lib e then (Inl (ModuleNotFoundError ''gitHelp''), w)
      else
        (case particle_lib e of
           None \<Rightarrow> (Inl (SystemExit install_message), w)
         | Some c \<Rightarrow>
             (let w1 = w\<lparr>stdout := stdout w @ fst (group_loop c (findall c))\<rparr> in
              case build_rows F c of
                Inl x \<Rightarrow> (Inl x, w1)
              | Inr rows \<Rightarrow>
                  (Inr (),
                   w1\<lparr>folder_exists := True,
                      out_file := Some (header_line @ git_line (git_hash e)
                                          @ concat (map (format_row F) rows))\<rparr>))))"

subsection \<open>Invariants of the two loops\<close>

text \<open>
  What the grouping loop keeps true of the dictionary: the keys are distinct, each
  value has its key as absolute value, and no key is a quark or a nucleus code.
\<close>

definition groups_ok :: "groups \<Rightarrow> bool" where
  "groups_ok d =
     (distinct (map fst d) \<and>
      (\<forall>(a, i) \<in> set d. \<bar>i\<bar> = a \<and> a \<notin> quark_ids \<and> a < 1000000000))"

text \<open>The keys for which the rows loop appends a row.\<close>

definition kept :: "'f float_ops \<Rightarrow> 'f catalog \<Rightarrow> groups \<Rightarrow> int \<Rightarrow> bool" where
  "kept F c d a =
     (case map_of d a of
        None \<Rightarrow> False
      | Some i \<Rightarrow> (case row_for F c i of Inr (Some r) \<Rightarrow> True | _ \<Rightarrow> False))"

text \<open>
  A catalog is consistent when every enumerated record can be looked up by its own
  identifier.
\<close>

definition consistent :: "'f catalog \<Rightarrow> bool" where
  "consistent c = list_all (\<lambda>p. from_pdgid c (pdgid p) \<noteq> None) (findall c)"

text \<open>
  The records of absolute identifier \<open>a\<close> that pass both filters, and the
  representative the grouping loop stores when such a record opens a group.
\<close>

definition survives :: "int \<Rightarrow> 'f particle \<Rightarrow> bool" where
  "survives a p = (\<not> is_quark p \<and> \<not> is_nucleus_or_ion p \<and> \<bar>pdgid p\<bar> = a)"

definition representative :: "'f catalog \<Rightarrow> int \<Rightarrow> 'f particle \<Rightarrow> int" where
  "representative c a p = (case from_pdgid c a of Some q \<Rightarrow> a | None \<Rightarrow> pdgid p)"

text \<open>Every representative of the dictionary can be looked up.\<close>

definition resolvable :: "'f catalog \<Rightarrow> groups \<Rightarrow> bool" where
  "resolvable c d = list_all (\<lambda>(a, i). from_pdgid c i \<noteq> None) d"

subsection \<open>A small catalog for the examples\<close>

text \<open>
  Example floats: exact rationals and a NaN. The two renderings are tabulated at the
  values the example catalog produces.
\<close>

datatype xfloat = XNaN | XNum rat

fun xmul :: "xfloat \<Rightarrow> xfloat \<Rightarrow> xfloat" where
  "xmul (XNum a) (XNum b) = XNum (a * b)"
| "xmul _ _ = XNaN"

fun xne :: "xfloat \<Rightarrow> xfloat \<Rightarrow> bool" where
  "xne (XNum a) (XNum b) = (a \<noteq> b)"
| "xne _ _ = True"

fun xlit :: "int \<Rightarrow> int \<Rightarrow> xfloat" where
  "xlit m e = XNum (if 0 \<le> e then of_int m * 10 ^ nat e else of_int m / 10 ^ nat (- e))"

definition xkg :: rat where
  "xkg = 178266192 / 10 ^ 38"

definition xfmt_e10 :: "xfloat \<Rightarrow> string" where
  "xfmt_e10 x =
     (if x = XNum (51099895 / 10 ^ 8 * xkg) then ''9.1093836932e-31''
      else if x = XNum (493677 / 10 ^ 3 * xkg) then ''8.8005918868e-28''
      else if x = XNum (980 * xkg) then ''1.7470086816e-27''
      else ''nan'')"

definition xfmt_g6 :: "xfloat \<Rightarrow> string" where
  "xfmt_g6 x =
     (if x = XNum (51099895 / 10 ^ 8) then ''0.510999''
      else if x = XNum (493677 / 10 ^ 3) then ''493.677''
      else if x = XNum 980 then ''980''
      else if x = XNum 0 then ''0''
      else ''nan'')"

definition xops :: "xfloat float_ops" where
  "xops = \<lparr>fl_lit = xlit, fl_isnan = (\<lambda>x. x = XNaN), fl_mul = xmul, fl_ne = xne,
            fmt_e10 = xfmt_e10, fmt_g6 = xfmt_g6\<rparr>"

text \<open>
  A catalog given by its table: the lookup returns the first record of the identifier,
  and an identifier object is rendered as \<open><PDGID: n>\<close>.
\<close>

definition table_catalog :: "'f particle list \<Rightarrow> 'f catalog" where
  "table_catalog ps =
     \<lparr>findall = ps, from_pdgid = (\<lambda>i. find (\<lambda>p. pdgid p = i) ps),
      pdgid_str = (\<lambda>i. ''<PDGID: '' @ str_int i @ ''>'')\<rparr>"

definition xparticle :: "int \<Rightarrow> xfloat option \<Rightarrow> string option \<Rightarrow> xfloat particle" where
  "xparticle i m n = \<lparr>pdgid = i, mass = m, name = n\<rparr>"

definition xtable :: "xfloat particle list" where
  "xtable =
     [xparticle 1 (Some (XNum (467 / 100))) (Some ''d''),
      xparticle 22 (Some (XNum (1 / 10 ^ 24))) (Some ''gamma''),
      xparticle (- 11) (Some (XNum (51099895 / 10 ^ 8))) (Some ''e+''),
      xparticle 11 (Some (XNum (51099895 / 10 ^ 8))) (Some ''e-''),
      xparticle (- 12) None (Some ''nu(e)~''),
      xparticle 12 None (Some ''nu(e)''),
      xparticle 9000111 (Some (XNum 980)) None,
      xparticle 21 (Some (XNum 0)) (Some ''g''),
      xparticle 1000010020 (Some (XNum (1875612928 / 10 ^ 6))) (Some ''D2''),
      xparticle (- 321) (Some (XNum (493677 / 10 ^ 3))) (Some ''K-''),
      xparticle 30221 None (Some ''f(0)(1370)''),
      xparticle 9020221 (Some XNaN) (Some ''eta(1405)'')]"

definition xcat :: "xfloat catalog" where
  "xcat = table_catalog xtable"

definition xrows :: "xfloat row list" where
  "xrows =
     [(11, XNum (51099895 / 10 ^ 8 * xkg), ''e-'', XNum (51099895 / 10 ^ 8)),
      (12, XNum 0, ''nu(e)'', XNum 0),
      (21, XNum 0, ''g'', XNum 0),
      (22, XNum 0, ''gamma'', XNum 0),
      (- 321, XNum (493677 / 10 ^ 3 * xkg), ''K-'', XNum (493677 / 10 ^ 3)),
      (9000111, XNum (980 * xkg), ''PDG9000111'', XNum 980)]"

text \<open>A catalog with one record: an antiparticle without a name.\<close>

definition ytable :: "xfloat particle list" where
  "ytable = [xparticle (- 321) (Some (XNum (493677 / 10 ^ 3))) None]"

definition ycat :: "xfloat catalog" where
  "ycat = table_catalog ytable"

definition yrows :: "xfloat row list" where
  "yrows = [(- 321, XNum (493677 / 10 ^ 3 * xkg), ''PDG<PDGID: -321>'', XNum (493677 / 10 ^ 3))]"

section \<open>Properties\<close>

subsection \<open>The dictionary and the rows loop\<close>

lemma groups_ok_step: "groups_ok (snd s) \<Longrightarrow> groups_ok (snd (group_step c s p))"
  by (auto simp: groups_ok_def group_step_def Let_def is_quark_def is_nucleus_or_ion_def
      split: option.splits)

lemma groups_ok_foldl: "groups_ok (snd s) \<Longrightarrow> groups_ok (snd (foldl (group_step c) s ps))"
  by (induction ps arbitrary: s) (auto simp: groups_ok_step)

lemma groups_ok_absid: "groups_ok (absid_to_pdgid c)"
  unfolding absid_to_pdgid_def group_loop_def
  by (rule groups_ok_foldl) (simp add: groups_ok_def)

lemma groups_ok_lookup:
  assumes "groups_ok d" and "a \<in> fst ` set d"
  shows "\<exists>i. map_of d a = Some i \<and> (a, i) \<in> set d \<and> \<bar>i\<bar> = a"
proof -
  from assms(2) obtain i where mem: "(a, i) \<in> set d" by auto
  from assms(1) have "distinct (map fst d)" by (simp add: groups_ok_def)
  with mem have "map_of d a = Some i" by simp
  moreover from assms(1) mem have "\<bar>i\<bar> = a" by (auto simp: groups_ok_def)
  ultimately show ?thesis using mem by blast
qed

lemma row_for_pdgid: "row_for F c i = Inr (Some r) \<Longrightarrow> row_pdgid r = i"
  by (auto simp: row_for_def row_pdgid_def split: sum.splits option.splits if_splits)

lemma rows_loop_pdgids:
  "rows_loop F c d ks acc = Inr rs \<Longrightarrow>
   map row_pdgid rs = map row_pdgid acc @ map (\<lambda>a. the (map_of d a)) (filter (kept F c d) ks)"
proof (induction ks arbitrary: acc)
  case Nil
  then show ?case by simp
next
  case (Cons a ks)
  then show ?case
    by (auto simp: kept_def row_for_pdgid split: option.splits sum.splits)
qed

lemma rows_loop_mem:
  "rows_loop F c d ks acc = Inr rs \<Longrightarrow> r \<in> set rs \<Longrightarrow>
   r \<in> set acc \<or> (\<exists>a \<in> set ks. \<exists>i. map_of d a = Some i \<and> row_for F c i = Inr (Some r))"
proof (induction ks arbitrary: acc)
  case Nil
  then show ?case by simp
next
  case (Cons a ks)
  then show ?case
    by (fastforce split: option.splits sum.splits)
qed

lemma build_rows_abs_ids:
  assumes "build_rows F c = Inr rs"
  shows "map (\<lambda>r. \<bar>row_pdgid r\<bar>) rs =
         filter (kept F c (absid_to_pdgid c)) (sort (map fst (absid_to_pdgid c)))"
proof -
  let ?d = "absid_to_pdgid c"
  let ?ks = "sort (map fst ?d)"
  from assms have "map row_pdgid rs = map (\<lambda>a. the (map_of ?d a)) (filter (kept F c ?d) ?ks)"
    using rows_loop_pdgids [of F c ?d ?ks "[]" rs] by (simp add: build_rows_def Let_def)
  then have "map abs (map row_pdgid rs) =
             map abs (map (\<lambda>a. the (map_of ?d a)) (filter (kept F c ?d) ?ks))"
    by simp
  also have "\<dots> = map (\<lambda>a. a) (filter (kept F c ?d) ?ks)"
    unfolding map_map
  proof (rule map_cong [OF refl])
    fix a assume "a \<in> set (filter (kept F c ?d) ?ks)"
    then have "a \<in> fst ` set ?d" by auto
    from groups_ok_lookup [OF groups_ok_absid this]
    show "(abs \<circ> (\<lambda>a. the (map_of ?d a))) a = a" by auto
  qed
  finally show ?thesis by (simp add: comp_def)
qed

lemma build_rows_mem:
  assumes "build_rows F c = Inr rs" and "r \<in> set rs"
  shows "\<exists>a. (a, row_pdgid r) \<in> set (absid_to_pdgid c) \<and> \<bar>row_pdgid r\<bar> = a
             \<and> row_for F c (row_pdgid r) = Inr (Some r)"
proof -
  let ?d = "absid_to_pdgid c"
  from assms obtain a i where a: "a \<in> set (sort (map fst ?d))"
    and i: "map_of ?d a = Some i" and r: "row_for F c i = Inr (Some r)"
    using rows_loop_mem [of F c ?d "sort (map fst ?d)" "[]" rs r]
    by (auto simp: build_rows_def Let_def)
  from r have ri: "row_pdgid r = i" by (rule row_for_pdgid)
  from a have "a \<in> fst ` set ?d" by simp
  from groups_ok_lookup [OF groups_ok_absid this] i
  have "(a, i) \<in> set ?d" and "\<bar>i\<bar> = a" by auto
  with ri r show ?thesis by auto
qed

lemma xgroups:
  "absid_to_pdgid xcat =
     [(22, 22), (11, 11), (12, 12), (9000111, 9000111), (21, 21), (321, - 321),
      (30221, 30221), (9020221, 9020221)]"
  by (simp add: absid_to_pdgid_def group_loop_def xcat_def table_catalog_def xtable_def
      xparticle_def group_step_def is_quark_def is_nucleus_or_ion_def quark_ids_def Let_def)

lemma xbuild: "build_rows xops xcat = Inr xrows"
  unfolding build_rows_def xgroups
  by (simp add: xcat_def table_catalog_def xtable_def xparticle_def row_for_def
      forced_mass_mev_def forced_zero_ids_def xops_def display_name_def str_int_def xrows_def
      digit_char_def Let_def fl_zero_def MEV_TO_KG_def xkg_def nat_digits.simps
      fstr_pdgid_def rep_is_object_def)

text \<open>
  Claim C3. No row of the output has an absolute identifier in the quark set
  \<open>{1,...,6}\<close> or at or above 1,000,000,000: a quark or nucleus record leaves the
  dictionary as it was, so no key of the dictionary is of either kind, and every row
  comes from a key.
\<close>

theorem excluded_categories_never_in_rows:
  "(\<forall>(p :: 'f particle) s. is_quark p \<or> is_nucleus_or_ion p \<longrightarrow> snd (group_step c s p) = snd s) \<and>
   (\<forall>(a, i) \<in> set (absid_to_pdgid c). a \<notin> quark_ids \<and> \<not> 1000000000 \<le> a \<and> \<bar>i\<bar> = a) \<and>
   (\<forall>rs. build_rows F c = Inr rs \<longrightarrow>
      (\<forall>r \<in> set rs. \<bar>row_pdgid r\<bar> \<notin> quark_ids \<and> \<not> 1000000000 \<le> \<bar>row_pdgid r\<bar>))"
proof -
  have quark: "snd (group_step c s p) = snd s" if "is_quark p \<or> is_nucleus_or_ion p"
    for p :: "'f particle" and s
    using that by (auto simp: group_step_def Let_def)
  have keys: "\<forall>(a, i) \<in> set (absid_to_pdgid c). a \<notin> quark_ids \<and> \<not> 1000000000 \<le> a \<and> \<bar>i\<bar> = a"
    using groups_ok_absid [of c] by (auto simp: groups_ok_def)
  have rows: "\<bar>row_pdgid r\<bar> \<notin> quark_ids \<and> \<not> 1000000000 \<le> \<bar>row_pdgid r\<bar>"
    if "build_rows F c = Inr rs" and "r \<in> set rs" for rs r
  proof -
    from build_rows_mem [OF that] obtain a where
      "(a, row_pdgid r) \<in> set (absid_to_pdgid c)" and "\<bar>row_pdgid r\<bar> = a" by blast
    with keys show ?thesis by auto
  qed
  from quark keys rows show ?thesis by blast
qed

theorem excluded_categories_never_in_rows_witness:
  "is_quark (xparticle 1 (Some (XNum (467 / 100))) (Some ''d'')) \<and>
   snd (group_step xcat ([], [(11, 11)]) (xparticle 1 (Some (XNum (467 / 100))) (Some ''d'')))
     = [(11, 11)] \<and>
   list_all (\<lambda>(a, i). a \<notin> quark_ids \<and> \<not> 1000000000 \<le> a \<and> \<bar>i\<bar> = a) (absid_to_pdgid xcat) \<and>
   build_rows xops xcat = Inr xrows \<and>
   list_all (\<lambda>r. \<bar>row_pdgid r\<bar> \<notin> quark_ids \<and> \<not> 1000000000 \<le> \<bar>row_pdgid r\<bar>) xrows"
  using excluded_categories_never_in_rows [of xcat xops] xbuild
  by (simp add: list_all_iff is_quark_def xparticle_def quark_ids_def)

text \<open>
  Claim C4. The absolute identifiers of the rows are pairwise distinct and the rows
  are in strictly ascending order of absolute identifier.
\<close>

theorem rows_unique_and_ascending:
  assumes "build_rows F c = Inr rs"
  shows "distinct (map (\<lambda>r. \<bar>row_pdgid r\<bar>) rs) \<and> sorted_wrt (<) (map (\<lambda>r. \<bar>row_pdgid r\<bar>) rs)"
proof -
  let ?d = "absid_to_pdgid c"
  have "distinct (map fst ?d)" using groups_ok_absid [of c] by (simp add: groups_ok_def)
  then have "sorted_wrt (<) (sort (map fst ?d))"
    by (simp add: strict_sorted_iff)
  then have "sorted_wrt (<) (filter (kept F c ?d) (sort (map fst ?d)))"
    by (rule sorted_wrt_filter)
  then have s: "sorted_wrt (<) (map (\<lambda>r. \<bar>row_pdgid r\<bar>) rs)"
    by (simp add: build_rows_abs_ids [OF assms])
  then have "distinct (map (\<lambda>r. \<bar>row_pdgid r\<bar>) rs)"
    by (simp add: strict_sorted_iff)
  with s show ?thesis by simp
qed

theorem rows_unique_and_ascending_witness:
  "build_rows xops xcat = Inr xrows \<and>
   map (\<lambda>r. \<bar>row_pdgid r\<bar>) xrows = [11, 12, 21, 22, 321, 9000111] \<and>
   distinct (map (\<lambda>r. \<bar>row_pdgid r\<bar>) xrows) \<and>
   sorted_wrt (<) (map (\<lambda>r. \<bar>row_pdgid r\<bar>) xrows)"
  using rows_unique_and_ascending [OF xbuild] xbuild
  by (simp add: xrows_def row_pdgid_def)

subsection \<open>The representative of a group\<close>

lemma key_in_groups_iff: "(a \<in> fst ` set d) = (map_of d a \<noteq> None)"
  by (simp add: map_of_eq_None_iff)

lemma map_of_group_step:
  "map_of (snd (group_step c s p)) a =
     (case map_of (snd s) a of
        Some i \<Rightarrow> Some i
      | None \<Rightarrow> if survives a p then Some (representative c a p) else None)"
  by (auto simp: group_step_def Let_def survives_def representative_def key_in_groups_iff
      map_add_def split: option.splits)

lemma map_of_group_foldl:
  "map_of (snd (foldl (group_step c) s ps)) a =
     (case map_of (snd s) a of
        Some i \<Rightarrow> Some i
      | None \<Rightarrow> (case find (survives a) ps of
                   None \<Rightarrow> None
                 | Some p \<Rightarrow> Some (representative c a p)))"
proof (induction ps arbitrary: s)
  case Nil
  then show ?case by (simp split: option.splits)
next
  case (Cons p ps)
  show ?case
    by (simp add: Cons.IH map_of_group_step split: option.splits)
qed

text \<open>
  Claim C5. The representative of an absolute identifier is fixed by the first
  surviving record of that absolute identifier in catalog order: the positive
  identifier when its lookup succeeds, that record's signed identifier otherwise. A key
  already in the dictionary keeps its representative whatever record comes next.
\<close>

theorem representative_from_first_record:
  "map_of (absid_to_pdgid c) a =
     (case find (survives a) (findall c) of
        None \<Rightarrow> None
      | Some p \<Rightarrow> Some (if from_pdgid c a \<noteq> None then a else pdgid p)) \<and>
   (\<forall>s p i. map_of (snd s) a = Some i \<longrightarrow> map_of (snd (group_step c s p)) a = Some i)"
  by (auto simp: absid_to_pdgid_def group_loop_def map_of_group_foldl map_of_group_step
      representative_def split: option.splits)


theorem representative_from_first_record_witness:
  "map_of (absid_to_pdgid xcat) 11 = Some 11 \<and>
   find (survives 11) (findall xcat) = Some (xparticle (- 11) (Some (XNum (51099895 / 10 ^ 8))) (Some ''e+'')) \<and>
   map_of (absid_to_pdgid xcat) 321 = Some (- 321) \<and>
   map_of (absid_to_pdgid xcat) 1 = None \<and>
   map_of (snd (group_step xcat ([], [(321, - 321)]) (xparticle 321 None None))) 321 = Some (- 321)"
  using representative_from_first_record [of xcat 11]
    representative_from_first_record [of xcat 321]
    representative_from_first_record [of xcat 1]
  by (simp add: xcat_def table_catalog_def xtable_def xparticle_def survives_def is_quark_def
      is_nucleus_or_ion_def quark_ids_def)

text \<open>
  A stored representative is the identifier object exactly when the lookup of its key
  failed, and is the key itself otherwise.
\<close>

lemma stored_representative_kind:
  assumes "(a, i) \<in> set (absid_to_pdgid c)"
  shows "rep_is_object c i = (from_pdgid c a = None) \<and> (\<not> rep_is_object c i \<longrightarrow> i = a)"
proof -
  from groups_ok_absid [of c] assms have abs: "\<bar>i\<bar> = a" and look: "map_of (absid_to_pdgid c) a = Some i"
    by (auto simp: groups_ok_def)
  from look have "from_pdgid c a \<noteq> None \<longrightarrow> i = a"
    by (auto simp: absid_to_pdgid_def group_loop_def map_of_group_foldl representative_def
        split: option.splits)
  with abs show ?thesis by (simp add: rep_is_object_def)
qed

subsection \<open>The run succeeds on a consistent catalog\<close>

lemma resolvable_step:
  "resolvable c (snd s) \<Longrightarrow> from_pdgid c (pdgid p) \<noteq> None \<Longrightarrow>
   resolvable c (snd (group_step c s p))"
  by (auto simp: resolvable_def group_step_def Let_def split: option.splits)

lemma resolvable_foldl:
  "resolvable c (snd s) \<Longrightarrow> list_all (\<lambda>p. from_pdgid c (pdgid p) \<noteq> None) ps \<Longrightarrow>
   resolvable c (snd (foldl (group_step c) s ps))"
  by (induction ps arbitrary: s) (auto simp: resolvable_step)

lemma resolvable_absid: "consistent c \<Longrightarrow> resolvable c (absid_to_pdgid c)"
  unfolding absid_to_pdgid_def group_loop_def consistent_def
  by (rule resolvable_foldl) (simp_all add: resolvable_def)

lemma row_for_total: "from_pdgid c i \<noteq> None \<Longrightarrow> \<exists>x. row_for F c i = Inr x"
  by (auto simp: row_for_def forced_mass_mev_def split: sum.splits option.splits)

lemma rows_loop_total:
  "\<forall>a \<in> set ks. \<exists>i. map_of d a = Some i \<and> from_pdgid c i \<noteq> None \<Longrightarrow>
   \<exists>rs. rows_loop F c d ks acc = Inr rs"
proof (induction ks arbitrary: acc)
  case Nil
  then show ?case by simp
next
  case (Cons a ks)
  then obtain i where i: "map_of d a = Some i" "from_pdgid c i \<noteq> None" by auto
  from row_for_total [OF i(2)] obtain x where x: "row_for F c i = Inr x" ..
  from Cons have "\<exists>rs. rows_loop F c d ks acc' = Inr rs" for acc' by simp
  with i x show ?case by (cases x) simp_all
qed

lemma build_rows_total:
  assumes "consistent c"
  shows "\<exists>rs. build_rows F c = Inr rs"
proof -
  let ?d = "absid_to_pdgid c"
  have "\<exists>i. map_of ?d a = Some i \<and> from_pdgid c i \<noteq> None" if "a \<in> set (sort (map fst ?d))" for a
  proof -
    from that have "a \<in> fst ` set ?d" by simp
    from groups_ok_lookup [OF groups_ok_absid this]
    obtain i where "map_of ?d a = Some i" and "(a, i) \<in> set ?d" by blast
    moreover from resolvable_absid [OF assms] \<open>(a, i) \<in> set ?d\<close>
    have "from_pdgid c i \<noteq> None" by (auto simp: resolvable_def list_all_iff)
    ultimately show ?thesis by blast
  qed
  then show ?thesis
    unfolding build_rows_def Let_def by (intro rows_loop_total) blast
qed

lemma rows_loop_complete:
  "rows_loop F c d ks acc = Inr rs \<Longrightarrow>
   set acc \<subseteq> set rs \<and>
   (\<forall>a \<in> set ks. \<exists>i x. map_of d a = Some i \<and> row_for F c i = Inr x \<and>
      (\<forall>r. x = Some r \<longrightarrow> r \<in> set rs))"
proof (induction ks arbitrary: acc)
  case Nil
  then show ?case by simp
next
  case (Cons a ks)
  from Cons.prems obtain i where i: "map_of d a = Some i"
    by (auto split: option.splits)
  from Cons.prems i obtain x where x: "row_for F c i = Inr x"
    by (auto split: sum.splits)
  let ?acc = "case x of None \<Rightarrow> acc | Some r \<Rightarrow> acc @ [r]"
  from Cons.prems i x have run: "rows_loop F c d ks ?acc = Inr rs"
    by (auto split: option.splits)
  from Cons.IH [OF run] have sub: "set ?acc \<subseteq> set rs"
    and rest: "\<forall>a \<in> set ks. \<exists>i x. map_of d a = Some i \<and> row_for F c i = Inr x \<and>
      (\<forall>r. x = Some r \<longrightarrow> r \<in> set rs)" by blast+
  from sub have "set acc \<subseteq> set rs" by (auto split: option.splits)
  moreover from sub have "\<forall>r. x = Some r \<longrightarrow> r \<in> set rs" by auto
  ultimately show ?case using i x rest by auto
qed

lemma build_rows_complete:
  assumes "build_rows F c = Inr rs" and "(a, i) \<in> set (absid_to_pdgid c)"
  shows "\<exists>x. row_for F c i = Inr x \<and> (\<forall>r. x = Some r \<longrightarrow> r \<in> set rs)"
proof -
  let ?d = "absid_to_pdgid c"
  from assms(2) have a: "a \<in> fst ` set ?d" by force
  from groups_ok_absid [of c] assms(2) have "map_of ?d a = Some i"
    by (simp add: groups_ok_def)
  moreover from a have "a \<in> set (sort (map fst ?d))" by simp
  ultimately show ?thesis
    using rows_loop_complete [of F c ?d "sort (map fst ?d)" "[]" rs] assms(1)
    by (fastforce simp: build_rows_def Let_def)
qed

lemma rows_loop_skip:
  "map_of d a = Some i \<Longrightarrow> row_for F c i = Inr None \<Longrightarrow>
   rows_loop F c d ks acc = rows_loop F c d (filter (\<lambda>k. k \<noteq> a) ks) acc"
  by (induction ks arbitrary: acc) (auto split: option.splits sum.splits)

subsection \<open>Mass resolution and dropped groups\<close>

lemma row_for_SomeD:
  assumes "row_for F c i = Inr (Some r)"
  shows "\<exists>p m. from_pdgid c i = Some p \<and> forced_mass_mev F c i = Inr m \<and>
           r = (i, fl_mul F m (MEV_TO_KG F), display_name c p i, m)"
  using assms by (auto simp: row_for_def split: sum.splits option.splits if_splits)

lemma xconsistent: "consistent xcat"
  by (simp add: consistent_def xcat_def table_catalog_def xtable_def xparticle_def)

lemma xlookup:
  "from_pdgid xcat 22 = Some (xparticle 22 (Some (XNum (1 / 10 ^ 24))) (Some ''gamma''))"
  "from_pdgid xcat 12 = Some (xparticle 12 None (Some ''nu(e)''))"
  "from_pdgid xcat 21 = Some (xparticle 21 (Some (XNum 0)) (Some ''g''))"
  "from_pdgid xcat 30221 = Some (xparticle 30221 None (Some ''f(0)(1370)''))"
  "from_pdgid xcat 9020221 = Some (xparticle 9020221 (Some XNaN) (Some ''eta(1405)''))"
  "from_pdgid xcat (- 321) = Some (xparticle (- 321) (Some (XNum (493677 / 10 ^ 3))) (Some ''K-''))"
  "from_pdgid xcat 9000111 = Some (xparticle 9000111 (Some (XNum 980)) None)"
  by (simp_all add: xcat_def table_catalog_def xtable_def xparticle_def)

text \<open>
  Claim C6. A group outside the forced-zero set whose representative's catalog mass
  is absent or NaN fails mass resolution with the \<open>ValueError\<close> the rows loop catches:
  the loop goes on to the next key, the result of the run is the one the loop gives on
  the other keys alone, and no row has the group's absolute identifier.
\<close>

theorem unresolvable_mass_drops_group:
  assumes "(a, i) \<in> set (absid_to_pdgid c)" and "\<bar>i\<bar> \<notin> forced_zero_ids"
    and "from_pdgid c i = Some p"
    and "mass p = None \<or> (\<exists>m. mass p = Some m \<and> fl_isnan F m)"
  shows "forced_mass_mev F c i = Inl ValueError \<and> row_for F c i = Inr None \<and>
         build_rows F c =
           rows_loop F c (absid_to_pdgid c)
             (filter (\<lambda>k. k \<noteq> a) (sort (map fst (absid_to_pdgid c)))) [] \<and>
         (\<forall>rs. build_rows F c = Inr rs \<longrightarrow> (\<forall>r \<in> set rs. \<bar>row_pdgid r\<bar> \<noteq> a))"
proof -
  let ?d = "absid_to_pdgid c"
  from assms(2-4) have mass: "forced_mass_mev F c i = Inl ValueError"
    by (auto simp: forced_mass_mev_def)
  then have skip: "row_for F c i = Inr None" by (simp add: row_for_def)
  from groups_ok_absid [of c] assms(1) have look: "map_of ?d a = Some i"
    by (simp add: groups_ok_def)
  have same: "build_rows F c = rows_loop F c ?d (filter (\<lambda>k. k \<noteq> a) (sort (map fst ?d))) []"
    unfolding build_rows_def Let_def by (rule rows_loop_skip [OF look skip])
  have "\<bar>row_pdgid r\<bar> \<noteq> a" if "build_rows F c = Inr rs" and "r \<in> set rs" for rs r
  proof
    assume "\<bar>row_pdgid r\<bar> = a"
    with that(2) have "a \<in> set (map (\<lambda>r. \<bar>row_pdgid r\<bar>) rs)" by force
    then have "kept F c ?d a" by (simp add: build_rows_abs_ids [OF that(1)])
    with look skip show False by (simp add: kept_def)
  qed
  with mass skip same show ?thesis by blast
qed

theorem unresolvable_mass_drops_group_witness:
  "(30221, 30221) \<in> set (absid_to_pdgid xcat) \<and> \<bar>30221 :: int\<bar> \<notin> forced_zero_ids \<and>
   from_pdgid xcat 30221 = Some (xparticle 30221 None (Some ''f(0)(1370)'')) \<and>
   mass (xparticle 30221 None (Some ''f(0)(1370)'')) = None \<and>
   forced_mass_mev xops xcat 30221 = Inl ValueError \<and> row_for xops xcat 30221 = Inr None \<and>
   build_rows xops xcat = Inr xrows \<and>
   rows_loop xops xcat (absid_to_pdgid xcat)
     (filter (\<lambda>k. k \<noteq> 30221) (sort (map fst (absid_to_pdgid xcat)))) [] = Inr xrows \<and>
   list_all (\<lambda>r. \<bar>row_pdgid r\<bar> \<noteq> 30221) xrows"
proof -
  have g: "(30221, 30221) \<in> set (absid_to_pdgid xcat)" by (simp add: xgroups)
  have f: "\<bar>30221 :: int\<bar> \<notin> forced_zero_ids" by (simp add: forced_zero_ids_def)
  have m: "mass (xparticle 30221 None (Some ''f(0)(1370)'')) = None
             \<or> (\<exists>m. mass (xparticle 30221 None (Some ''f(0)(1370)'')) = Some m \<and> fl_isnan xops m)"
    by (simp add: xparticle_def)
  from unresolvable_mass_drops_group [OF g f xlookup(4) m] g f xlookup(4) xbuild
  show ?thesis by (simp add: list_all_iff xparticle_def)
qed

text \<open>
  Claim C9. For a representative whose absolute identifier is in the forced-zero set,
  mass resolution returns \<open>0.0\<close> whatever the catalog is (no lookup is made), the rows
  loop never skips the group, every successful run has a row for it with mass
  \<open>0.0\<close> MeV, and on a consistent catalog the run is successful.
\<close>

theorem forced_zero_group_never_dropped:
  assumes "(a, i) \<in> set (absid_to_pdgid c)" and "\<bar>i\<bar> \<in> forced_zero_ids"
  shows "(\<forall>c' :: 'f catalog. forced_mass_mev F c' i = Inr (fl_zero F)) \<and>
         row_for F c i \<noteq> Inr None \<and>
         (\<forall>rs. build_rows F c = Inr rs \<longrightarrow>
            (\<exists>r \<in> set rs. row_pdgid r = i \<and> row_m_mev r = fl_zero F)) \<and>
         (consistent c \<longrightarrow> (\<exists>rs. build_rows F c = Inr rs))"
proof -
  have forced: "forced_mass_mev F c' i = Inr (fl_zero F)" for c' :: "'f catalog"
    using assms(2) by (simp add: forced_mass_mev_def)
  then have nskip: "row_for F c i \<noteq> Inr None"
    by (simp add: row_for_def split: option.splits)
  have "\<exists>r \<in> set rs. row_pdgid r = i \<and> row_m_mev r = fl_zero F" if "build_rows F c = Inr rs" for rs
  proof -
    from build_rows_complete [OF that assms(1)] obtain x where
      x: "row_for F c i = Inr x" and mem: "\<forall>r. x = Some r \<longrightarrow> r \<in> set rs" by blast
    from x nskip obtain r where r: "x = Some r" by (cases x) auto
    from row_for_SomeD [OF x [unfolded r]] forced [of c]
    have "row_pdgid r = i" and "row_m_mev r = fl_zero F"
      by (auto simp: row_pdgid_def row_m_mev_def)
    with mem r show ?thesis by blast
  qed
  with forced nskip build_rows_total [of c F] show ?thesis by blast
qed

theorem forced_zero_group_never_dropped_witness:
  "(12, 12) \<in> set (absid_to_pdgid xcat) \<and> \<bar>12 :: int\<bar> \<in> forced_zero_ids \<and> consistent xcat \<and>
   from_pdgid xcat 12 = Some (xparticle 12 None (Some ''nu(e)'')) \<and>
   forced_mass_mev xops xcat 12 = Inr (fl_zero xops) \<and>
   forced_mass_mev xops (table_catalog []) 12 = Inr (fl_zero xops) \<and>
   row_for xops xcat 12 \<noteq> Inr None \<and>
   build_rows xops xcat = Inr xrows \<and>
   (12, XNum 0, ''nu(e)'', XNum 0) \<in> set xrows"
proof -
  have g: "(12, 12) \<in> set (absid_to_pdgid xcat)" by (simp add: xgroups)
  have f: "\<bar>12 :: int\<bar> \<in> forced_zero_ids" by (simp add: forced_zero_ids_def)
  from forced_zero_group_never_dropped [OF g f, where F = xops] g f xconsistent xlookup(2) xbuild
  show ?thesis by (simp add: xrows_def)
qed

subsection \<open>The decimal rendering of an identifier\<close>

lemma digit_val_digit_char: "digit_val (digit_char n) = n mod 10"
proof -
  define k where "k = n mod 10"
  have "k < 10" by (simp add: k_def)
  then have "k = 0 \<or> k = 1 \<or> k = 2 \<or> k = 3 \<or> k = 4 \<or> k = 5 \<or> k = 6 \<or> k = 7 \<or> k = 8
      \<or> k = 9"
    by arith
  then have "digit_val (''0123456789'' ! k) = k"
    by (elim disjE) (simp_all add: digit_val_def)
  then show ?thesis by (simp add: digit_char_def k_def)
qed

lemma digits_val_snoc: "digits_val (s @ [ch]) = 10 * digits_val s + digit_val ch"
  by (simp add: digits_val_def)

lemma digits_val_nat_digits: "digits_val (nat_digits n) = n"
proof (induction n rule: nat_digits.induct)
  case (1 n)
  show ?case
  proof (cases "n < 10")
    case True
    then show ?thesis
      by (subst nat_digits.simps) (simp add: digits_val_def digit_val_digit_char)
  next
    case False
    with "1" have "digits_val (nat_digits (n div 10)) = n div 10" by simp
    with False show ?thesis
      by (subst nat_digits.simps) (simp add: digits_val_snoc digit_val_digit_char)
  qed
qed

lemma nat_digits_nonempty: "nat_digits n \<noteq> []"
  by (subst nat_digits.simps) simp

lemma digit_char_in: "digit_char n \<in> set ''0123456789''"
  unfolding digit_char_def by (rule nth_mem) simp

lemma nat_digits_chars: "set (nat_digits n) \<subseteq> set ''0123456789''"
proof (induction n rule: nat_digits.induct)
  case (1 n)
  show ?case
  proof (cases "n < 10")
    case True
    then show ?thesis
      using digit_char_in [of n] by (subst nat_digits.simps) simp
  next
    case False
    with "1" have "set (nat_digits (n div 10)) \<subseteq> set ''0123456789''" by simp
    with False show ?thesis
      using digit_char_in [of n] by (subst nat_digits.simps) simp
  qed
qed

lemma int_of_str_str_int: "int_of_str (str_int i) = i"
proof (cases "i < 0")
  case True
  then show ?thesis
    by (simp add: int_of_str_def str_int_def digits_val_nat_digits)
next
  case False
  obtain ch ds where s: "nat_digits (nat i) = ch # ds"
    using nat_digits_nonempty [of "nat i"] by (cases "nat_digits (nat i)") auto
  then have "ch \<in> set (nat_digits (nat i))" by simp
  with nat_digits_chars [of "nat i"] have "ch \<in> set ''0123456789''" by blast
  then have "ch \<noteq> CHR ''-''" by auto
  with False s digits_val_nat_digits [of "nat i"] show ?thesis
    by (simp add: int_of_str_def str_int_def)
qed

subsection \<open>Rows and their lines\<close>

lemma build_rows_row:
  assumes "build_rows F c = Inr rs" and "r \<in> set rs"
  shows "\<exists>p m. from_pdgid c (row_pdgid r) = Some p \<and>
           forced_mass_mev F c (row_pdgid r) = Inr m \<and>
           row_m_kg r = fl_mul F m (MEV_TO_KG F) \<and>
           row_name r = display_name c p (row_pdgid r) \<and> row_m_mev r = m"
proof -
  from build_rows_mem [OF assms] have "row_for F c (row_pdgid r) = Inr (Some r)" by blast
  from row_for_SomeD [OF this] obtain p m where
    p: "from_pdgid c (row_pdgid r) = Some p" and m: "forced_mass_mev F c (row_pdgid r) = Inr m"
    and r: "r = (row_pdgid r, fl_mul F m (MEV_TO_KG F), display_name c p (row_pdgid r), m)"
    by blast
  have "row_m_kg r = fl_mul F m (MEV_TO_KG F)" by (subst r) (simp add: row_m_kg_def)
  moreover have "row_name r = display_name c p (row_pdgid r)" by (subst r) (simp add: row_name_def)
  moreover have "row_m_mev r = m" by (subst r) (simp add: row_m_mev_def)
  ultimately show ?thesis using p m by blast
qed

lemma format_row_fields:
  "format_row F r =
     rjust 6 (str_int (row_pdgid r)) @ '' '' @ ljust 18 (m_kg_str F (row_m_kg r))
       @ ''    # '' @ row_name r @ '' ('' @ fmt_g6 F (row_m_mev r) @ '' MeV/c^2)''
       @ [CHR 0x0A]"
  by (cases r) (simp add: format_row_def row_pdgid_def row_m_kg_def row_name_def row_m_mev_def)

subsection \<open>The example catalog, evaluated\<close>

lemma xops_sel:
  "fl_zero xops = XNum 0" "MEV_TO_KG xops = XNum xkg" "fl_isnan xops = (\<lambda>x. x = XNaN)"
  "fl_mul xops = xmul" "fl_ne xops = xne" "fmt_e10 xops = xfmt_e10" "fmt_g6 xops = xfmt_g6"
  by (simp_all add: xops_def fl_zero_def MEV_TO_KG_def xkg_def)

lemma xzero: "\<not> fl_ne xops (fl_mul xops (fl_zero xops) (MEV_TO_KG xops)) (fl_zero xops)"
  by (simp add: xops_sel)

lemma str_vals:
  "str_int 11 = ''11''" "str_int 21 = ''21''" "str_int 22 = ''22''"
  "str_int (- 321) = ''-321''" "str_int 9000111 = ''9000111''"
  by (simp_all add: str_int_def digit_char_def nat_digits.simps)

lemma pads:
  "rjust 6 ''11'' = ''    11''"
  "rjust 6 ''21'' = ''    21''"
  "rjust 6 ''22'' = ''    22''"
  "rjust 6 ''-321'' = ''  -321''"
  "rjust 6 ''9000111'' = ''9000111''"
  "ljust 18 ''0.0'' = ''0.0               ''"
  "ljust 18 ''9.1093836932e-31'' = ''9.1093836932e-31  ''"
  "ljust 18 ''8.8005918868e-28'' = ''8.8005918868e-28  ''"
  "ljust 18 ''1.7470086816e-27'' = ''1.7470086816e-27  ''"
  by (simp_all add: rjust_def ljust_def numeral_eq_Suc)

lemma xlines:
  "format_row xops (22, XNum 0, ''gamma'', XNum 0) =
     ''    22 0.0                   # gamma (0 MeV/c^2)'' @ [CHR 0x0A]"
  "format_row xops (21, XNum 0, ''g'', XNum 0) =
     ''    21 0.0                   # g (0 MeV/c^2)'' @ [CHR 0x0A]"
  "format_row xops (11, XNum (51099895 / 10 ^ 8 * xkg), ''e-'', XNum (51099895 / 10 ^ 8)) =
     ''    11 9.1093836932e-31      # e- (0.510999 MeV/c^2)'' @ [CHR 0x0A]"
  "format_row xops (- 321, XNum (493677 / 10 ^ 3 * xkg), ''K-'', XNum (493677 / 10 ^ 3)) =
     ''  -321 8.8005918868e-28      # K- (493.677 MeV/c^2)'' @ [CHR 0x0A]"
  "format_row xops (9000111, XNum (980 * xkg), ''PDG9000111'', XNum 980) =
     ''9000111 1.7470086816e-27      # PDG9000111 (980 MeV/c^2)'' @ [CHR 0x0A]"
  by (simp_all add: format_row_def xops_sel m_kg_str_def xfmt_e10_def xfmt_g6_def xkg_def
      str_vals pads)

subsection \<open>Forced-zero masses\<close>

text \<open>
  Claim C1. Given that \<open>0.0 * MEV_TO_KG == 0.0\<close> in the float arithmetic, every row
  whose absolute identifier is in the forced-zero set has mass \<open>0.0\<close> MeV whatever
  mass the catalog holds, a kilogram mass equal to \<open>0.0\<close>, and the mass field
  \<open>0.0\<close> padded to 18 characters in its line; and every such group of the dictionary
  has its row.
\<close>

theorem forced_zero_mass_written_as_literal:
  assumes "\<not> fl_ne F (fl_mul F (fl_zero F) (MEV_TO_KG F)) (fl_zero F)"
    and "build_rows F c = Inr rs"
  shows "(\<forall>r \<in> set rs. \<bar>row_pdgid r\<bar> \<in> forced_zero_ids \<longrightarrow>
            forced_mass_mev F c (row_pdgid r) = Inr (fl_zero F) \<and>
            row_m_mev r = fl_zero F \<and>
            row_m_kg r = fl_mul F (fl_zero F) (MEV_TO_KG F) \<and>
            \<not> fl_ne F (row_m_kg r) (fl_zero F) \<and>
            m_kg_str F (row_m_kg r) = ''0.0'' \<and>
            format_row F r =
              rjust 6 (str_int (row_pdgid r)) @ '' '' @ ''0.0'' @ replicate 15 (CHR '' '')
                @ ''    # '' @ row_name r @ '' ('' @ fmt_g6 F (fl_zero F) @ '' MeV/c^2)''
                @ [CHR 0x0A]) \<and>
         (\<forall>(a, i) \<in> set (absid_to_pdgid c). \<bar>i\<bar> \<in> forced_zero_ids \<longrightarrow>
            (\<exists>r \<in> set rs. row_pdgid r = i))"
proof -
  have row: "forced_mass_mev F c (row_pdgid r) = Inr (fl_zero F) \<and>
            row_m_mev r = fl_zero F \<and>
            row_m_kg r = fl_mul F (fl_zero F) (MEV_TO_KG F) \<and>
            \<not> fl_ne F (row_m_kg r) (fl_zero F) \<and>
            m_kg_str F (row_m_kg r) = ''0.0'' \<and>
            format_row F r =
              rjust 6 (str_int (row_pdgid r)) @ '' '' @ ''0.0'' @ replicate 15 (CHR '' '')
                @ ''    # '' @ row_name r @ '' ('' @ fmt_g6 F (fl_zero F) @ '' MeV/c^2)''
                @ [CHR 0x0A]"
    if r: "r \<in> set rs" and f: "\<bar>row_pdgid r\<bar> \<in> forced_zero_ids" for r
  proof -
    from f have m: "forced_mass_mev F c (row_pdgid r) = Inr (fl_zero F)"
      by (simp add: forced_mass_mev_def)
    from build_rows_row [OF assms(2) r] m
    have mev: "row_m_mev r = fl_zero F" and kg: "row_m_kg r = fl_mul F (fl_zero F) (MEV_TO_KG F)"
      by auto
    from kg assms(1) have ne: "\<not> fl_ne F (row_m_kg r) (fl_zero F)" by simp
    then have str: "m_kg_str F (row_m_kg r) = ''0.0''" by (simp add: m_kg_str_def)
    have pad: "ljust 18 ''0.0'' = ''0.0'' @ replicate 15 (CHR '' '')"
      by (simp add: ljust_def)
    have "format_row F r =
              rjust 6 (str_int (row_pdgid r)) @ '' '' @ ''0.0'' @ replicate 15 (CHR '' '')
                @ ''    # '' @ row_name r @ '' ('' @ fmt_g6 F (fl_zero F) @ '' MeV/c^2)''
                @ [CHR 0x0A]"
      unfolding format_row_fields str mev pad by simp
    with m mev kg ne str show ?thesis by blast
  qed
  have grp: "\<exists>r \<in> set rs. row_pdgid r = i"
    if g: "(a, i) \<in> set (absid_to_pdgid c)" and f: "\<bar>i\<bar> \<in> forced_zero_ids" for a i
  proof -
    from f have m: "forced_mass_mev F c i = Inr (fl_zero F)" by (simp add: forced_mass_mev_def)
    from build_rows_complete [OF assms(2) g] obtain x where
      x: "row_for F c i = Inr x" and mem: "\<forall>r. x = Some r \<longrightarrow> r \<in> set rs" by blast
    from x m obtain r where r: "x = Some r"
      by (auto simp: row_for_def split: option.splits)
    from row_for_pdgid [OF x [unfolded r]] mem r show ?thesis by blast
  qed
  from row grp show ?thesis by blast
qed

theorem forced_zero_mass_written_as_literal_witness:
  "\<not> fl_ne xops (fl_mul xops (fl_zero xops) (MEV_TO_KG xops)) (fl_zero xops) \<and>
   build_rows xops xcat = Inr xrows \<and>
   from_pdgid xcat 22 = Some (xparticle 22 (Some (XNum (1 / 10 ^ 24))) (Some ''gamma'')) \<and>
   (22, XNum 0, ''gamma'', XNum 0) \<in> set xrows \<and>
   forced_mass_mev xops xcat 22 = Inr (XNum 0) \<and>
   m_kg_str xops (XNum 0) = ''0.0'' \<and>
   format_row xops (22, XNum 0, ''gamma'', XNum 0) =
     ''    22 0.0                   # gamma (0 MeV/c^2)'' @ [CHR 0x0A]"
proof -
  let ?r = "(22, XNum 0, ''gamma'', XNum 0) :: xfloat row"
  have r: "?r \<in> set xrows" by (simp add: xrows_def)
  have f: "\<bar>row_pdgid ?r\<bar> \<in> forced_zero_ids"
    by (simp add: row_pdgid_def forced_zero_ids_def)
  from forced_zero_mass_written_as_literal [OF xzero xbuild] r f
  have "forced_mass_mev xops xcat (row_pdgid ?r) = Inr (fl_zero xops) \<and>
        m_kg_str xops (row_m_kg ?r) = ''0.0''"
    by blast
  then have "forced_mass_mev xops xcat 22 = Inr (XNum 0) \<and> m_kg_str xops (XNum 0) = ''0.0''"
    by (simp add: row_pdgid_def row_m_kg_def xops_sel)
  with xzero xbuild r xlookup(1) xlines(1) show ?thesis by blast
qed

subsection \<open>Unit conversion\<close>

text \<open>
  Claim C2. A row whose absolute identifier is outside the forced-zero set holds the
  catalog mass of its representative (present, not NaN) as its MeV mass and the float
  product of that mass and \<open>1.78266192e-30\<close> as its kilogram mass; the mass field is
  the \<open>.10e\<close> rendering of that product, or \<open>0.0\<close> when the product equals \<open>0.0\<close>.
\<close>

theorem row_mass_is_catalog_mass_times_constant:
  assumes "build_rows F c = Inr rs" and "r \<in> set rs"
    and "\<bar>row_pdgid r\<bar> \<notin> forced_zero_ids"
  shows "\<exists>p m. from_pdgid c (row_pdgid r) = Some p \<and> mass p = Some m \<and> \<not> fl_isnan F m \<and>
           row_m_mev r = m \<and>
           row_m_kg r = fl_mul F m (fl_lit F 178266192 (- 38)) \<and>
           m_kg_str F (row_m_kg r) =
             (if fl_ne F (fl_mul F m (fl_lit F 178266192 (- 38))) (fl_lit F 0 (- 1))
              then fmt_e10 F (fl_mul F m (fl_lit F 178266192 (- 38))) else ''0.0'')"
proof -
  from build_rows_row [OF assms(1,2)] obtain p m where
    p: "from_pdgid c (row_pdgid r) = Some p"
    and m: "forced_mass_mev F c (row_pdgid r) = Inr m"
    and kg: "row_m_kg r = fl_mul F m (MEV_TO_KG F)" and mev: "row_m_mev r = m"
    by blast
  from m p assms(3) have "mass p = Some m \<and> \<not> fl_isnan F m"
    by (auto simp: forced_mass_mev_def split: option.splits if_splits)
  with p kg mev show ?thesis
    by (simp add: m_kg_str_def MEV_TO_KG_def fl_zero_def)
qed

theorem row_mass_is_catalog_mass_times_constant_witness:
  "build_rows xops xcat = Inr xrows \<and>
   (11, XNum (51099895 / 10 ^ 8 * xkg), ''e-'', XNum (51099895 / 10 ^ 8)) \<in> set xrows \<and>
   \<bar>11 :: int\<bar> \<notin> forced_zero_ids \<and>
   from_pdgid xcat 11 = Some (xparticle 11 (Some (XNum (51099895 / 10 ^ 8))) (Some ''e-'')) \<and>
   fl_mul xops (XNum (51099895 / 10 ^ 8)) (fl_lit xops 178266192 (- 38))
     = XNum (51099895 / 10 ^ 8 * xkg) \<and>
   m_kg_str xops (XNum (51099895 / 10 ^ 8 * xkg)) = ''9.1093836932e-31''"
proof -
  let ?r = "(11, XNum (51099895 / 10 ^ 8 * xkg), ''e-'', XNum (51099895 / 10 ^ 8)) :: xfloat row"
  have r: "?r \<in> set xrows" by (simp add: xrows_def)
  have f: "\<bar>row_pdgid ?r\<bar> \<notin> forced_zero_ids"
    by (simp add: row_pdgid_def forced_zero_ids_def)
  have l: "from_pdgid xcat 11 = Some (xparticle 11 (Some (XNum (51099895 / 10 ^ 8))) (Some ''e-''))"
    by (simp add: xcat_def table_catalog_def xtable_def xparticle_def)
  have k: "fl_mul xops (XNum (51099895 / 10 ^ 8)) (fl_lit xops 178266192 (- 38))
             = XNum (51099895 / 10 ^ 8 * xkg)"
    by (simp add: xops_def xkg_def)
  have s: "m_kg_str xops (XNum (51099895 / 10 ^ 8 * xkg)) = ''9.1093836932e-31''"
    by (simp add: m_kg_str_def xops_sel xfmt_e10_def xkg_def)
  from row_mass_is_catalog_mass_times_constant [OF xbuild r f] xbuild r f l k s
  show ?thesis by (simp add: row_pdgid_def)
qed

subsection \<open>The zero literal\<close>

text \<open>
  Claim C10. In the line of every row the mass field is the literal \<open>0.0\<close> when the
  kilogram mass of the row, the product of its MeV mass and \<open>MEV_TO_KG\<close>, compares
  equal to \<open>0.0\<close>, and the \<open>.10e\<close> rendering of that mass otherwise; the forced-zero set
  plays no part in the choice. A group outside that set whose catalog mass gives a
  product equal to \<open>0.0\<close> (a catalog mass of \<open>0.0\<close> does) has a row, written with
  \<open>0.0\<close>.
\<close>

theorem zero_literal_depends_on_kg_value_only:
  assumes "build_rows (F :: 'f float_ops) c = Inr rs"
  shows "(\<forall>r \<in> set rs.
            row_m_kg r = fl_mul F (row_m_mev r) (MEV_TO_KG F) \<and>
            format_row F r =
              rjust 6 (str_int (row_pdgid r)) @ '' ''
                @ ljust 18 (if fl_ne F (row_m_kg r) (fl_zero F) then fmt_e10 F (row_m_kg r)
                            else ''0.0'')
                @ ''    # '' @ row_name r @ '' ('' @ fmt_g6 F (row_m_mev r) @ '' MeV/c^2)''
                @ [CHR 0x0A]) \<and>
         (\<forall>(a, i) \<in> set (absid_to_pdgid c). \<forall>p m.
            \<bar>i\<bar> \<notin> forced_zero_ids \<and> from_pdgid c i = Some p \<and> mass p = Some m \<and>
            \<not> fl_isnan F m \<and> \<not> fl_ne F (fl_mul F m (MEV_TO_KG F)) (fl_zero F) \<longrightarrow>
            (\<exists>r \<in> set rs. row_pdgid r = i \<and> row_m_mev r = m \<and>
               m_kg_str F (row_m_kg r) = ''0.0'' \<and>
               format_row F r =
                 rjust 6 (str_int i) @ '' '' @ ''0.0'' @ replicate 15 (CHR '' '')
                   @ ''    # '' @ row_name r @ '' ('' @ fmt_g6 F m @ '' MeV/c^2)''
                   @ [CHR 0x0A]))"
proof -
  have fld: "row_m_kg r = fl_mul F (row_m_mev r) (MEV_TO_KG F) \<and>
            format_row F r =
              rjust 6 (str_int (row_pdgid r)) @ '' ''
                @ ljust 18 (if fl_ne F (row_m_kg r) (fl_zero F) then fmt_e10 F (row_m_kg r)
                            else ''0.0'')
                @ ''    # '' @ row_name r @ '' ('' @ fmt_g6 F (row_m_mev r) @ '' MeV/c^2)''
                @ [CHR 0x0A]"
    if "r \<in> set rs" for r
  proof -
    from build_rows_row [OF assms that]
    have "row_m_kg r = fl_mul F (row_m_mev r) (MEV_TO_KG F)" by auto
    moreover have "m_kg_str F (row_m_kg r) =
        (if fl_ne F (row_m_kg r) (fl_zero F) then fmt_e10 F (row_m_kg r) else ''0.0'')"
      by (simp add: m_kg_str_def)
    ultimately show ?thesis unfolding format_row_fields by simp
  qed
  have zero: "\<exists>r \<in> set rs. row_pdgid r = i \<and> row_m_mev r = m \<and>
               m_kg_str F (row_m_kg r) = ''0.0'' \<and>
               format_row F r =
                 rjust 6 (str_int i) @ '' '' @ ''0.0'' @ replicate 15 (CHR '' '')
                   @ ''    # '' @ row_name r @ '' ('' @ fmt_g6 F m @ '' MeV/c^2)''
                   @ [CHR 0x0A]"
    if g: "(a, i) \<in> set (absid_to_pdgid c)" and f: "\<bar>i\<bar> \<notin> forced_zero_ids"
      and p: "from_pdgid c i = Some p" and m: "mass p = Some m" and n: "\<not> fl_isnan F m"
      and z: "\<not> fl_ne F (fl_mul F m (MEV_TO_KG F)) (fl_zero F)" for a i p m
  proof -
    from f p m n have res: "forced_mass_mev F c i = Inr m"
      by (simp add: forced_mass_mev_def)
    let ?r = "(i, fl_mul F m (MEV_TO_KG F), display_name c p i, m)"
    from res p have rf: "row_for F c i = Inr (Some ?r)" by (simp add: row_for_def)
    from build_rows_complete [OF assms g] rf have mem: "?r \<in> set rs" by auto
    have str: "m_kg_str F (row_m_kg ?r) = ''0.0''"
      using z by (simp add: m_kg_str_def row_m_kg_def)
    have pad: "ljust 18 ''0.0'' = ''0.0'' @ replicate 15 (CHR '' '')"
      by (simp add: ljust_def)
    have line: "format_row F ?r =
                 rjust 6 (str_int i) @ '' '' @ ''0.0'' @ replicate 15 (CHR '' '')
                   @ ''    # '' @ row_name ?r @ '' ('' @ fmt_g6 F m @ '' MeV/c^2)''
                   @ [CHR 0x0A]"
      unfolding format_row_fields str pad by (simp add: row_pdgid_def row_m_mev_def)
    have "row_pdgid ?r = i" and "row_m_mev ?r = m"
      by (simp_all add: row_pdgid_def row_m_mev_def)
    with mem str line show ?thesis by blast
  qed
  from fld zero show ?thesis by blast
qed

theorem zero_literal_depends_on_kg_value_only_witness:
  "build_rows xops xcat = Inr xrows \<and>
   (21, 21) \<in> set (absid_to_pdgid xcat) \<and> \<bar>21 :: int\<bar> \<notin> forced_zero_ids \<and>
   from_pdgid xcat 21 = Some (xparticle 21 (Some (XNum 0)) (Some ''g'')) \<and>
   \<not> fl_isnan xops (XNum 0) \<and>
   \<not> fl_ne xops (fl_mul xops (XNum 0) (MEV_TO_KG xops)) (fl_zero xops) \<and>
   (21, XNum 0, ''g'', XNum 0) \<in> set xrows \<and>
   format_row xops (21, XNum 0, ''g'', XNum 0) =
     ''    21 0.0                   # g (0 MeV/c^2)'' @ [CHR 0x0A] \<and>
   (11, XNum (51099895 / 10 ^ 8 * xkg), ''e-'', XNum (51099895 / 10 ^ 8)) \<in> set xrows \<and>
   fl_ne xops (XNum (51099895 / 10 ^ 8 * xkg)) (fl_zero xops) \<and>
   fmt_e10 xops (XNum (51099895 / 10 ^ 8 * xkg)) = ''9.1093836932e-31'' \<and>
   format_row xops (11, XNum (51099895 / 10 ^ 8 * xkg), ''e-'', XNum (51099895 / 10 ^ 8)) =
     ''    11 9.1093836932e-31      # e- (0.510999 MeV/c^2)'' @ [CHR 0x0A]"
proof -
  have g: "(21, 21) \<in> set (absid_to_pdgid xcat)" by (simp add: xgroups)
  have f: "\<bar>21 :: int\<bar> \<notin> forced_zero_ids" by (simp add: forced_zero_ids_def)
  have n: "\<not> fl_isnan xops (XNum 0)" by (simp add: xops_sel)
  have z: "\<not> fl_ne xops (fl_mul xops (XNum 0) (MEV_TO_KG xops)) (fl_zero xops)"
    by (simp add: xops_sel)
  have r: "(21, XNum 0, ''g'', XNum 0) \<in> set xrows"
    "(11, XNum (51099895 / 10 ^ 8 * xkg), ''e-'', XNum (51099895 / 10 ^ 8)) \<in> set xrows"
    by (simp_all add: xrows_def)
  have e: "fl_ne xops (XNum (51099895 / 10 ^ 8 * xkg)) (fl_zero xops)"
    "fmt_e10 xops (XNum (51099895 / 10 ^ 8 * xkg)) = ''9.1093836932e-31''"
    by (simp_all add: xops_sel xfmt_e10_def xkg_def)
  from zero_literal_depends_on_kg_value_only [OF xbuild] xbuild g f xlookup(3) n z r e
    xlines(2,3)
  show ?thesis by blast
qed

subsection \<open>The run as a whole\<close>

text \<open>
  Claim C7 says that a run without the particle library ends with the installation
  message. The imports of \<open>numpy\<close> and \<open>gitHelp\<close> come before the guarded import:
  when \<open>numpy\<close> is missing as well, the run ends in \<open>ModuleNotFoundError\<close> for
  \<open>numpy\<close>, with no installation message.
\<close>

theorem missing_numpy_hides_install_message:
  "particle_lib \<lparr>numpy_lib = False, gitHelp_lib = True,
                  particle_lib = (None :: xfloat catalog option), git_hash = None\<rparr> = None \<and>
   fst (main xops \<lparr>numpy_lib = False, gitHelp_lib = True, particle_lib = None, git_hash = None\<rparr>
          \<lparr>folder_exists = False, out_file = None, stdout = []\<rparr>)
     = Inl (ModuleNotFoundError ''numpy'') \<and>
   fst (main xops \<lparr>numpy_lib = False, gitHelp_lib = True, particle_lib = None, git_hash = None\<rparr>
          \<lparr>folder_exists = False, out_file = None, stdout = []\<rparr>)
     \<noteq> Inl (SystemExit install_message)"
  by (simp add: main_def)

text \<open>
  Claim C7, amended. When the import of the particle library fails, the run ends
  with an exception and the folder, the output file and the printed output are as they
  were before the run; when the imports of \<open>numpy\<close> and \<open>gitHelp\<close> that precede it
  succeed, the exception is \<open>SystemExit\<close> carrying the installation message.
\<close>

theorem missing_dependency_exits_before_output:
  assumes "particle_lib e = None"
  shows "snd (main F e w) = w \<and>
         (\<exists>x. fst (main F e w) = Inl x) \<and>
         (numpy_lib e \<and> gitHelp_lib e \<longrightarrow>
            main F e w = (Inl (SystemExit install_message), w))"
  using assms by (simp add: main_def)

theorem missing_dependency_exits_before_output_witness:
  "particle_lib \<lparr>numpy_lib = True, gitHelp_lib = True,
                  particle_lib = (None :: xfloat catalog option),
                  git_hash = Some ''0a1b2c3''\<rparr> = None \<and>
   main xops \<lparr>numpy_lib = True, gitHelp_lib = True, particle_lib = None,
               git_hash = Some ''0a1b2c3''\<rparr>
        \<lparr>folder_exists = False, out_file = None, stdout = []\<rparr>
     = (Inl (SystemExit install_message),
        \<lparr>folder_exists = False, out_file = None, stdout = []\<rparr>) \<and>
   snd (main xops \<lparr>numpy_lib = False, gitHelp_lib = True, particle_lib = None,
                    git_hash = Some ''0a1b2c3''\<rparr>
          \<lparr>folder_exists = False, out_file = None, stdout = []\<rparr>)
     = \<lparr>folder_exists = False, out_file = None, stdout = []\<rparr>"
proof -
  let ?w = "\<lparr>folder_exists = False, out_file = None, stdout = []\<rparr>"
  let ?e = "\<lparr>numpy_lib = True, gitHelp_lib = True,
             particle_lib = (None :: xfloat catalog option), git_hash = Some ''0a1b2c3''\<rparr>"
  let ?e' = "\<lparr>numpy_lib = False, gitHelp_lib = True,
              particle_lib = (None :: xfloat catalog option), git_hash = Some ''0a1b2c3''\<rparr>"
  have n: "particle_lib ?e = None" and n': "particle_lib ?e' = None" by simp_all
  from missing_dependency_exits_before_output [OF n, of xops ?w]
    missing_dependency_exits_before_output [OF n', of xops ?w] n
  show ?thesis by simp
qed

lemma ygroups: "absid_to_pdgid ycat = [(321, - 321)]"
  by (simp add: absid_to_pdgid_def group_loop_def ycat_def table_catalog_def ytable_def
      xparticle_def group_step_def is_quark_def is_nucleus_or_ion_def quark_ids_def Let_def)

lemma ylookup:
  "from_pdgid ycat (- 321) = Some (xparticle (- 321) (Some (XNum (493677 / 10 ^ 3))) None)"
  "from_pdgid ycat 321 = None"
  by (simp_all add: ycat_def table_catalog_def ytable_def xparticle_def)

lemma yname: "pdgid_str ycat (- 321) = ''<PDGID: -321>''"
  by (simp add: ycat_def table_catalog_def str_vals)

lemma ybuild: "build_rows xops ycat = Inr yrows"
  unfolding build_rows_def ygroups
  by (simp add: row_for_def forced_mass_mev_def forced_zero_ids_def ylookup yname xops_sel
      display_name_def fstr_pdgid_def rep_is_object_def xparticle_def yrows_def Let_def)

lemma row_positive_plain:
  assumes "build_rows F c = Inr rs" and "r \<in> set rs" and "0 \<le> row_pdgid r"
  shows "fstr_pdgid c (row_pdgid r) = str_int (row_pdgid r)"
proof -
  from build_rows_row [OF assms(1,2)] obtain p where
    "from_pdgid c (row_pdgid r) = Some p" by blast
  with assms(3) show ?thesis by (simp add: fstr_pdgid_def rep_is_object_def)
qed

text \<open>
  Claim C8 says that every line has the identifier in a 6-character field and that a
  missing name is replaced by \<open>PDG\<close> followed by the identifier. The width 6 of
  \<open>{pdgid:>6d}\<close> is a minimum: the row of 9000111 is written with a 7-character
  identifier. And a representative kept from the record itself is an identifier
  object, which \<open>f"PDG{pdgid}"\<close> renders with the library's \<open>str\<close>: the nameless
  record \<open>-321\<close> gets the name \<open>PDG<PDGID: -321>\<close>, not \<open>PDG-321\<close>.
\<close>

theorem seven_digit_identifier_widens_field:
  "build_rows xops xcat = Inr xrows \<and>
   (9000111, XNum (980 * xkg), ''PDG9000111'', XNum 980) \<in> set xrows \<and>
   format_row xops (9000111, XNum (980 * xkg), ''PDG9000111'', XNum 980) =
     ''9000111 1.7470086816e-27      # PDG9000111 (980 MeV/c^2)'' @ [CHR 0x0A] \<and>
   length (rjust 6 (str_int 9000111)) = 7 \<and>
   length (rjust 6 (str_int 9000111)) \<noteq> 6 \<and>
   build_rows xops ycat = Inr yrows \<and>
   from_pdgid ycat (- 321) = Some (xparticle (- 321) (Some (XNum (493677 / 10 ^ 3))) None) \<and>
   name (xparticle (- 321) (Some (XNum (493677 / 10 ^ 3))) None) = None \<and>
   map row_pdgid yrows = [- 321] \<and>
   map row_name yrows = [''PDG<PDGID: -321>''] \<and>
   ''PDG<PDGID: -321>'' \<noteq> ''PDG'' @ str_int (- 321)"
proof -
  have r: "(9000111, XNum (980 * xkg), ''PDG9000111'', XNum 980) \<in> set xrows"
    by (simp add: xrows_def)
  have l: "length (rjust 6 (str_int 9000111)) = 7"
    by (simp add: str_vals pads)
  have n: "name (xparticle (- 321) (Some (XNum (493677 / 10 ^ 3))) None) = None"
    by (simp add: xparticle_def)
  have y: "map row_pdgid yrows = [- 321]" "map row_name yrows = [''PDG<PDGID: -321>'']"
    by (simp_all add: yrows_def row_pdgid_def row_name_def)
  have d: "''PDG<PDGID: -321>'' \<noteq> ''PDG'' @ str_int (- 321)"
    by (simp add: str_vals)
  from xbuild r xlines(5) l ybuild ylookup(1) n y d show ?thesis by simp
qed

text \<open>
  Claim C8, amended. A successful run writes the header, the optional revision line
  and one line per row, in row order. Each line is the identifier padded on the left
  with spaces to at least 6 characters (a longer identifier is written in full), one
  space, the mass field padded on the right with spaces to 18 characters (no \<open>.10e\<close>
  rendering is longer than 18), four spaces, \<open>#\<close>, a space, the name, and in
  parentheses the \<open>.6g\<close> rendering of the MeV mass followed by \<open>MeV/c^2\<close>. The name is
  the catalog name of the representative when it has a non-empty one; when it has none
  and the representative is not negative, the name is \<open>PDG\<close> followed by the
  identifier.
\<close>

theorem line_shape:
  assumes "numpy_lib e" and "gitHelp_lib e" and "particle_lib e = Some c"
    and "build_rows (F :: 'f float_ops) c = Inr rs"
    and "\<forall>x. length (fmt_e10 F x) \<le> 18"
  shows "fst (main F e w) = Inr () \<and>
         out_file (snd (main F e w)) =
           Some (header_line @ git_line (git_hash e) @ concat (map (format_row F) rs)) \<and>
         (\<forall>r \<in> set rs.
            format_row F r =
              replicate (6 - length (str_int (row_pdgid r))) (CHR '' '') @ str_int (row_pdgid r)
                @ '' '' @ m_kg_str F (row_m_kg r)
                @ replicate (18 - length (m_kg_str F (row_m_kg r))) (CHR '' '')
                @ ''    # '' @ row_name r @ '' ('' @ fmt_g6 F (row_m_mev r) @ '' MeV/c^2)''
                @ [CHR 0x0A] \<and>
            length (rjust 6 (str_int (row_pdgid r))) = max 6 (length (str_int (row_pdgid r))) \<and>
            length (ljust 18 (m_kg_str F (row_m_kg r))) = 18 \<and>
            (\<exists>p. from_pdgid c (row_pdgid r) = Some p \<and>
               (\<forall>s. name p = Some s \<and> s \<noteq> [] \<longrightarrow> row_name r = s) \<and>
               ((name p = None \<or> name p = Some []) \<and> 0 \<le> row_pdgid r \<longrightarrow>
                  row_name r = ''PDG'' @ str_int (row_pdgid r))))"
proof -
  from assms(1-4) have run: "fst (main F e w) = Inr ()"
    and written: "out_file (snd (main F e w)) =
           Some (header_line @ git_line (git_hash e) @ concat (map (format_row F) rs))"
    by (simp_all add: main_def Let_def)
  have line: "format_row F r =
              replicate (6 - length (str_int (row_pdgid r))) (CHR '' '') @ str_int (row_pdgid r)
                @ '' '' @ m_kg_str F (row_m_kg r)
                @ replicate (18 - length (m_kg_str F (row_m_kg r))) (CHR '' '')
                @ ''    # '' @ row_name r @ '' ('' @ fmt_g6 F (row_m_mev r) @ '' MeV/c^2)''
                @ [CHR 0x0A]" for r :: "'f row"
    unfolding format_row_fields by (simp add: rjust_def ljust_def)
  have wid: "length (rjust 6 s) = max 6 (length s)" for s
    by (simp add: rjust_def)
  have len: "length (m_kg_str F x) \<le> 18" for x
    using assms(5) by (simp add: m_kg_str_def)
  have mass: "length (ljust 18 (m_kg_str F x)) = 18" for x
    using len [of x] by (simp add: ljust_def)
  have nm: "\<exists>p. from_pdgid c (row_pdgid r) = Some p \<and>
               (\<forall>s. name p = Some s \<and> s \<noteq> [] \<longrightarrow> row_name r = s) \<and>
               ((name p = None \<or> name p = Some []) \<and> 0 \<le> row_pdgid r \<longrightarrow>
                  row_name r = ''PDG'' @ str_int (row_pdgid r))"
    if r: "r \<in> set rs" for r
  proof -
    from build_rows_row [OF assms(4) r] obtain p where
      p: "from_pdgid c (row_pdgid r) = Some p"
      and n: "row_name r = display_name c p (row_pdgid r)" by blast
    have "row_name r = s" if "name p = Some s" and "s \<noteq> []" for s
      using that n by (simp add: display_name_def)
    moreover have "row_name r = ''PDG'' @ str_int (row_pdgid r)"
      if "name p = None \<or> name p = Some []" and "0 \<le> row_pdgid r"
      using that n row_positive_plain [OF assms(4) r] by (auto simp: display_name_def)
    ultimately show ?thesis using p by blast
  qed
  from run written line wid mass nm show ?thesis by blast
qed

theorem line_shape_witness:
  "numpy_lib \<lparr>numpy_lib = True, gitHelp_lib = True, particle_lib = Some xcat,
               git_hash = Some ''0a1b2c3''\<rparr> \<and>
   gitHelp_lib \<lparr>numpy_lib = True, gitHelp_lib = True, particle_lib = Some xcat,
                 git_hash = Some ''0a1b2c3''\<rparr> \<and>
   particle_lib \<lparr>numpy_lib = True, gitHelp_lib = True, particle_lib = Some xcat,
                  git_hash = Some ''0a1b2c3''\<rparr> = Some xcat \<and>
   build_rows xops xcat = Inr xrows \<and>
   (\<forall>x. length (fmt_e10 xops x) \<le> 18) \<and>
   fst (main xops \<lparr>numpy_lib = True, gitHelp_lib = True, particle_lib = Some xcat,
                    git_hash = Some ''0a1b2c3''\<rparr>
          \<lparr>folder_exists = False, out_file = None, stdout = []\<rparr>) = Inr () \<and>
   out_file (snd (main xops \<lparr>numpy_lib = True, gitHelp_lib = True, particle_lib = Some xcat,
                              git_hash = Some ''0a1b2c3''\<rparr>
          \<lparr>folder_exists = False, out_file = None, stdout = []\<rparr>)) =
     Some (header_line @ ''# Produced with crpropa-data version: 0a1b2c3'' @ [CHR 0x0A]
             @ concat (map (format_row xops) xrows)) \<and>
   (- 321, XNum (493677 / 10 ^ 3 * xkg), ''K-'', XNum (493677 / 10 ^ 3)) \<in> set xrows \<and>
   format_row xops (- 321, XNum (493677 / 10 ^ 3 * xkg), ''K-'', XNum (493677 / 10 ^ 3)) =
     ''  -321 8.8005918868e-28      # K- (493.677 MeV/c^2)'' @ [CHR 0x0A] \<and>
   (9000111, XNum (980 * xkg), ''PDG9000111'', XNum 980) \<in> set xrows \<and>
   from_pdgid xcat 9000111 = Some (xparticle 9000111 (Some (XNum 980)) None) \<and>
   format_row xops (9000111, XNum (980 * xkg), ''PDG9000111'', XNum 980) =
     ''9000111 1.7470086816e-27      # PDG9000111 (980 MeV/c^2)'' @ [CHR 0x0A]"
proof -
  let ?e = "\<lparr>numpy_lib = True, gitHelp_lib = True, particle_lib = Some xcat,
             git_hash = Some ''0a1b2c3''\<rparr>"
  let ?w = "\<lparr>folder_exists = False, out_file = None, stdout = []\<rparr>"
  have e: "numpy_lib ?e" "gitHelp_lib ?e" "particle_lib ?e = Some xcat" by simp_all
  have f: "\<forall>x. length (fmt_e10 xops x) \<le> 18"
    by (simp add: xops_sel xfmt_e10_def)
  have g: "git_line (Some ''0a1b2c3'') = ''# Produced with crpropa-data version: 0a1b2c3'' @ [CHR 0x0A]"
    by (simp add: git_line_def)
  have r: "(- 321, XNum (493677 / 10 ^ 3 * xkg), ''K-'', XNum (493677 / 10 ^ 3)) \<in> set xrows"
    "(9000111, XNum (980 * xkg), ''PDG9000111'', XNum 980) \<in> set xrows"
    by (simp_all add: xrows_def)
  from line_shape [OF e xbuild f, of ?w]
  have "fst (main xops ?e ?w) = Inr () \<and>
        out_file (snd (main xops ?e ?w)) =
          Some (header_line @ git_line (git_hash ?e) @ concat (map (format_row xops) xrows))"
    by blast
  with e xbuild f r xlookup(7) xlines(4,5) show ?thesis by (simp add: g)
qed

end
